theory Spec2Isabelle
  imports Main "HOL-Library.Sublist"
begin

section \<open>Strings\<close>

text \<open>
  A JavaScript string is a sequence of UTF-16 code units. The model uses HOL strings, whose
  characters are the 256 values \<open>0x00 .. 0xFF\<close>; a character stands for the code unit
  of the same number, so the model covers the strings whose code units lie in the Latin-1
  range. On these strings \<open>String.prototype.toLowerCase\<close> works unit by unit: the
  letters \<open>A .. Z\<close> and \<open>0xC0 .. 0xDE\<close> (without the multiplication sign
  \<open>0xD7\<close>) move up by 32, every other unit stays.
\<close>

definition upperCaseUnits :: string where
  "upperCaseUnits = ''ABCDEFGHIJKLMNOPQRSTUVWXYZ'' @
     [CHR 0xC0, CHR 0xC1, CHR 0xC2, CHR 0xC3, CHR 0xC4, CHR 0xC5, CHR 0xC6, CHR 0xC7,
      CHR 0xC8, CHR 0xC9, CHR 0xCA, CHR 0xCB, CHR 0xCC, CHR 0xCD, CHR 0xCE, CHR 0xCF,
      CHR 0xD0, CHR 0xD1, CHR 0xD2, CHR 0xD3, CHR 0xD4, CHR 0xD5, CHR 0xD6,
      CHR 0xD8, CHR 0xD9, CHR 0xDA, CHR 0xDB, CHR 0xDC, CHR 0xDD, CHR 0xDE]"

definition lowerCaseUnits :: string where
  "lowerCaseUnits = ''abcdefghijklmnopqrstuvwxyz'' @
     [CHR 0xE0, CHR 0xE1, CHR 0xE2, CHR 0xE3, CHR 0xE4, CHR 0xE5, CHR 0xE6, CHR 0xE7,
      CHR 0xE8, CHR 0xE9, CHR 0xEA, CHR 0xEB, CHR 0xEC, CHR 0xED, CHR 0xEE, CHR 0xEF,
      CHR 0xF0, CHR 0xF1, CHR 0xF2, CHR 0xF3, CHR 0xF4, CHR 0xF5, CHR 0xF6,
      CHR 0xF8, CHR 0xF9, CHR 0xFA, CHR 0xFB, CHR 0xFC, CHR 0xFD, CHR 0xFE]"

definition toLowerUnit :: "char \<Rightarrow> char" where
  "toLowerUnit c =
     (case map_of (zip upperCaseUnits lowerCaseUnits) c of Some l \<Rightarrow> l | None \<Rightarrow> c)"

definition toLowerCase :: "string \<Rightarrow> string" where
  "toLowerCase s = map toLowerUnit s"

text \<open>\<open>String.prototype.includes\<close>: the pattern occurs at some start position.\<close>

fun includesString :: "string \<Rightarrow> string \<Rightarrow> bool" where
  "includesString [] p = (p = [])"
| "includesString (c # cs) p = (prefix p (c # cs) \<or> includesString cs p)"

text \<open>
  The character classes of the regular expressions, on the modelled range: \<open>\d\<close> is
  \<open>0 .. 9\<close>; \<open>\s\<close> (also what \<open>trim\<close> and \<open>parseInt\<close> skip) is
  tab, line feed, vertical tab, form feed, carriage return, space and no-break space; the
  dot excludes the line terminators, line feed and carriage return.
\<close>

definition isDigit :: "char \<Rightarrow> bool" where
  "isDigit c = (c \<in> set ''0123456789'')"

definition isWhiteSpace :: "char \<Rightarrow> bool" where
  "isWhiteSpace c =
     (c \<in> set [CHR 0x09, CHR 0x0A, CHR 0x0B, CHR 0x0C, CHR 0x0D, CHR 0x20, CHR 0xA0])"

definition isLineTerminator :: "char \<Rightarrow> bool" where
  "isLineTerminator c = (c \<in> set [CHR 0x0A, CHR 0x0D])"

text \<open>
  Under the flag \<open>i\<close> (without \<open>u\<close>) a unit matches an ASCII pattern character
  when both have the same canonical form; on the modelled range that is: they agree after
  lower-casing. \<open>startsWithIgnoreCase p s\<close> matches the literal \<open>p\<close> at the start of
  \<open>s\<close> in this way.
\<close>

definition startsWithIgnoreCase :: "string \<Rightarrow> string \<Rightarrow> bool" where
  "startsWithIgnoreCase p s = prefix (toLowerCase p) (toLowerCase s)"

text \<open>
  \<open>String.prototype.match\<close> with a regular expression that has no flag \<open>g\<close>:
  the start positions are tried from left to right, and the first one where the pattern
  matches decides. The argument \<open>m\<close> is the pattern anchored at the start of its input; it
  returns the text of capture group 1.
\<close>

fun regexMatch :: "(string \<Rightarrow> string option) \<Rightarrow> string \<Rightarrow> string option" where
  "regexMatch m [] = m []"
| "regexMatch m (c # cs) =
     (case m (c # cs) of Some g \<Rightarrow> Some g | None \<Rightarrow> regexMatch m cs)"

text \<open>
  \<open>/id: (\d+)/\<close> anchored: the literal, then the longest run of digits, which must
  not be empty. Nothing follows the group, so the greedy run is the capture.
\<close>

definition idPattern :: "string \<Rightarrow> string option" where
  "idPattern s =
     (if prefix ''id: '' s
      then (let ds = takeWhile isDigit (drop 4 s) in if ds = [] then None else Some ds)
      else None)"

text \<open>
  \<open>/path[:\s]+([^\s]+)/i\<close> anchored. The class \<open>[:\s]+\<close> first takes its longest
  run and then gives units back one at a time (never the last one) until the group
  \<open>([^\s]+)\<close> finds at least one unit that is not white space; the group is greedy.
  \<open>pathBacktrack k r\<close> tries the run lengths \<open>k, k - 1, .., 1\<close> on the text \<open>r\<close>
  that follows the literal.
\<close>

fun pathBacktrack :: "nat \<Rightarrow> string \<Rightarrow> string option" where
  "pathBacktrack 0 r = None"
| "pathBacktrack (Suc k) r =
     (let g = takeWhile (\<lambda>c. \<not> isWhiteSpace c) (drop (Suc k) r)
      in if g \<noteq> [] then Some g else pathBacktrack k r)"

definition pathPattern :: "string \<Rightarrow> string option" where
  "pathPattern s =
     (if startsWithIgnoreCase ''path'' s
      then (let r = drop 4 s
            in pathBacktrack (length (takeWhile (\<lambda>c. c = CHR '':'' \<or> isWhiteSpace c) r)) r)
      else None)"

text \<open>
  \<open>/Added book ids?: (.+)/i\<close> anchored. The optional \<open>s\<close> is tried present first,
  then absent; after the colon and the space the group takes the rest of the line, which
  must not be empty.
\<close>

definition addedTail :: "string \<Rightarrow> string option" where
  "addedTail t =
     (if prefix '': '' t
      then (let g = takeWhile (\<lambda>c. \<not> isLineTerminator c) (drop 2 t)
            in if g = [] then None else Some g)
      else None)"

definition addedPattern :: "string \<Rightarrow> string option" where
  "addedPattern s =
     (if startsWithIgnoreCase ''Added book id'' s
      then (let r = drop 13 s
            in case (if startsWithIgnoreCase ''s'' r then addedTail (drop 1 r) else None) of
                 Some g \<Rightarrow> Some g
               | None \<Rightarrow> addedTail r)
      else None)"

text \<open>
  \<open>String.prototype.split\<close> on a one-unit separator, \<open>trim\<close>, and
  \<open>parseInt(s, 10)\<close>: white space is skipped, a sign is read, then the longest run of
  digits; without a digit the result is \<open>NaN\<close>. Below \<open>2^53\<close> every integer is a
  number value and the result is the integer that the digits denote, \<open>Num i\<close>. From
  there on the result is the number value that the runtime takes for that integer, a
  double near it; \<open>Rounded i\<close> names it by the integer and does not compute it.
\<close>

datatype number = Num int | Rounded int | NaN

fun split :: "char \<Rightarrow> string \<Rightarrow> string list" where
  "split sep [] = [[]]"
| "split sep (c # cs) =
     (if c = sep then [] # split sep cs
      else (case split sep cs of [] \<Rightarrow> [[c]] | p # ps \<Rightarrow> (c # p) # ps))"

definition trim :: "string \<Rightarrow> string" where
  "trim s = rev (dropWhile isWhiteSpace (rev (dropWhile isWhiteSpace s)))"

definition digitValue :: "char \<Rightarrow> int" where
  "digitValue c = (case map_of (zip ''0123456789'' [0, 1, 2, 3, 4, 5, 6, 7, 8, 9]) c of
                     Some d \<Rightarrow> d | None \<Rightarrow> 0)"

definition decimalValue :: "string \<Rightarrow> int" where
  "decimalValue ds = foldl (\<lambda>a c. 10 * a + digitValue c) 0 ds"

definition parseInt :: "string \<Rightarrow> number" where
  "parseInt s =
     (let t = dropWhile isWhiteSpace s;
          neg = (case t of [] \<Rightarrow> False | c # _ \<Rightarrow> c = CHR ''-'');
          u = (case t of [] \<Rightarrow> [] | c # r \<Rightarrow> if c = CHR ''-'' \<or> c = CHR ''+'' then r else t);
          ds = takeWhile isDigit u;
          i = (if neg then - decimalValue ds else decimalValue ds)
      in if ds = [] then NaN
         else if decimalValue ds < 9007199254740992 then Num i
         else Rounded i)"

text \<open>
  \<open>Array.prototype.join\<close>. A number that the caller passes in (a book identifier, a
  series index, a limit) may be any number value, and the code does one thing with it: it
  renders it with \<open>Number.prototype.toString\<close>. Such a number is named here by that
  rendering, its decimal text (\<open>12\<close>, \<open>2.5\<close>, \<open>1e+21\<close>), which
  \<open>toString\<close> gives back.
\<close>

fun join :: "string \<Rightarrow> string list \<Rightarrow> string" where
  "join sep [] = []"
| "join sep [x] = x"
| "join sep (x # y # ys) = x @ sep @ join sep (y # ys)"

datatype numeric = Numeric string

fun toString :: "numeric \<Rightarrow> string" where
  "toString (Numeric t) = t"

section \<open>Errors and the error classifier\<close>

text \<open>
  The error classes of \<open>core/errors\<close>, together with the plain \<open>Error\<close> that the
  adapters raise themselves, with the error object of \<open>execa\<close> (its standard error,
  standard output and message) and with a thrown value that is no \<open>Error\<close> instance.
  A \<open>CalibreError\<close> holds its message, the command and the error output; the two
  subclasses hold their detail, the command and the error output (their message is built
  from the detail); \<open>CalibreNotFoundError\<close> extends \<open>Error\<close> and holds a message only.
  The field \<open>bookId\<close> has the type \<open>number | string\<close>.
\<close>

datatype book_id = IdNumber number | IdString string

datatype js_error =
    Error string
  | ExecaError string string string
  | NonError string
  | CalibreError string string string
  | BookNotFoundError book_id string string
  | CalibreNotFoundError string
  | LibraryNotFoundError string string string

definition determineErrorType :: "js_error \<Rightarrow> string \<Rightarrow> string \<Rightarrow> js_error" where
  "determineErrorType error command stderr =
     (let errorMessage = toLowerCase stderr
      in if includesString errorMessage ''no book with id'' \<or>
            includesString errorMessage ''book not found''
         then (let idMatch = regexMatch idPattern errorMessage;
                   bookId = (case idMatch of Some g \<Rightarrow> IdNumber (parseInt g)
                                           | None \<Rightarrow> IdString ''unknown'')
               in BookNotFoundError bookId command stderr)
         else if includesString errorMessage ''library not found'' \<or>
                 includesString errorMessage ''cannot find library''
         then (let pathMatch = regexMatch pathPattern errorMessage;
                   libraryPath = (case pathMatch of Some g \<Rightarrow> g | None \<Rightarrow> ''unknown'')
               in LibraryNotFoundError libraryPath command stderr)
         else if includesString errorMessage ''command not found'' \<or>
                 includesString errorMessage ''calibredb: not found''
         then CalibreNotFoundError ''calibredb executable not found''
         else CalibreError (''Error executing calibredb '' @ command) command stderr)"

text \<open>The classified errors: what the classifier may return, as opposed to a bare value.\<close>

fun classified :: "js_error \<Rightarrow> bool" where
  "classified (CalibreError m c e) = True"
| "classified (BookNotFoundError b c e) = True"
| "classified (CalibreNotFoundError m) = True"
| "classified (LibraryNotFoundError p c e) = True"
| "classified (Error m) = False"
| "classified (ExecaError e out m) = False"
| "classified (NonError v) = False"

fun failsClassified :: "js_error + 'a \<Rightarrow> bool" where
  "failsClassified (Inl x) = classified x"
| "failsClassified (Inr v) = False"

section \<open>The process invoker\<close>

text \<open>
  \<open>CalibreOptions\<close>: every field is optional. \<open>execa file argv\<close> either resolves
  with the captured standard output, or rejects with an error object that carries the
  standard error, the standard output and a message (a non-zero exit does that; a field that
  is missing on the object behaves under \<open>||\<close> like the empty string, which stands for
  it here), or throws something that is no \<open>Error\<close>. The external tool is a parameter
  of the model, of type \<open>execa_fn\<close>. Every launch of a child process is recorded, in
  order, in a list of the launched file and its argument vector.
\<close>

record calibre_options =
  libraryPath :: "string option"
  calibreBin :: "string option"
  forMachine :: "bool option"
  stream :: "bool option"
  debug :: "bool option"

record execa_error =
  stderr :: string
  stdout :: string
  message :: string

datatype execa_result = Resolved string | Rejected execa_error | Thrown string

type_synonym execa_fn = "string \<Rightarrow> string list \<Rightarrow> execa_result"

type_synonym spawns = "(string \<times> string list) list"

datatype child_process = ChildProcess string "string list"

text \<open>
  The argument vector, built by the same sequence of pushes in \<open>execCalibre\<close> and in
  \<open>execCalibreStream\<close>. An optional string is truthy when it is present and not
  empty, an optional flag when it is present and true.
\<close>

definition truthyBool :: "bool option \<Rightarrow> bool" where
  "truthyBool v = (v = Some True)"

definition execArgs :: "string \<Rightarrow> string list \<Rightarrow> 'a calibre_options_scheme \<Rightarrow> string list" where
  "execArgs command args options =
     (let execArgs0 = [command];
          execArgs1 = (case libraryPath options of
                         None \<Rightarrow> execArgs0
                       | Some p \<Rightarrow> if p \<noteq> [] then execArgs0 @ [''--library-path'', p]
                                   else execArgs0);
          execArgs2 = (if truthyBool (forMachine options)
                       then execArgs1 @ [''--for-machine'']
                       else execArgs1)
      in execArgs2 @ args)"

text \<open>
  The file to launch: the destructuring default \<open>calibreBin = "calibredb"\<close> applies where
  the field is absent.
\<close>

definition binOf :: "'a calibre_options_scheme \<Rightarrow> string" where
  "binOf options = (case calibreBin options of None \<Rightarrow> ''calibredb'' | Some b \<Rightarrow> b)"

definition execCalibre ::
  "execa_fn \<Rightarrow> string \<Rightarrow> string list \<Rightarrow> 'a calibre_options_scheme \<Rightarrow> spawns
     \<Rightarrow> (js_error + string) \<times> spawns" where
  "execCalibre execa command args options log =
     (let argv = execArgs command args options;
          log' = log @ [(binOf options, argv)]
      in case execa (binOf options) argv of
           Resolved out \<Rightarrow> (Inr out, log')
         | Rejected e \<Rightarrow>
             (Inl (CalibreError
                     (''Failed to execute calibredb '' @ command @ '': '' @ message e)
                     command
                     (if stderr e \<noteq> [] then stderr e
                      else if stdout e \<noteq> [] then stdout e
                      else ''No error output available'')), log')
         | Thrown v \<Rightarrow> (Inl (NonError v), log'))"

text \<open>
  \<open>JSON.parse\<close> is a parameter: it yields the decoded value, or \<open>None\<close> where it
  throws.
\<close>

definition execCalibreJson ::
  "execa_fn \<Rightarrow> (string \<Rightarrow> 'j option) \<Rightarrow> string \<Rightarrow> string list
     \<Rightarrow> 'a calibre_options_scheme \<Rightarrow> spawns \<Rightarrow> (js_error + 'j) \<times> spawns" where
  "execCalibreJson execa parse command args options log =
     (let jsonOptions = options\<lparr>forMachine := Some True\<rparr>
      in case execCalibre execa command args jsonOptions log of
           (Inl e, log') \<Rightarrow> (Inl e, log')
         | (Inr output, log') \<Rightarrow>
             (case parse output of
                Some v \<Rightarrow> (Inr v, log')
              | None \<Rightarrow>
                  (Inl (CalibreError (''Failed to parse JSON output from calibredb '' @ command)
                          command output), log')))"

definition execCalibreStream ::
  "string \<Rightarrow> string list \<Rightarrow> 'a calibre_options_scheme \<Rightarrow> spawns \<Rightarrow> child_process \<times> spawns" where
  "execCalibreStream command args options log =
     (let argv = execArgs command args options
      in (ChildProcess (binOf options) argv, log @ [(binOf options, argv)]))"

subsection \<open>The earlier version of the invoker\<close>

text \<open>
  The earlier \<open>exec.ts\<close> does not read \<open>forMachine\<close>; its \<open>execCalibreJson\<close>
  pushes the flag onto the caller's argument array and passes the options on unchanged.
\<close>

definition execArgs_old :: "string \<Rightarrow> string list \<Rightarrow> 'a calibre_options_scheme \<Rightarrow> string list" where
  "execArgs_old command args options =
     (let execArgs0 = [command];
          execArgs1 = (case libraryPath options of
                         None \<Rightarrow> execArgs0
                       | Some p \<Rightarrow> if p \<noteq> [] then execArgs0 @ [''--library-path'', p]
                                   else execArgs0)
      in execArgs1 @ args)"

definition execCalibre_old ::
  "execa_fn \<Rightarrow> string \<Rightarrow> string list \<Rightarrow> 'a calibre_options_scheme \<Rightarrow> spawns
     \<Rightarrow> (js_error + string) \<times> spawns" where
  "execCalibre_old execa command args options log =
     (let argv = execArgs_old command args options;
          log' = log @ [(binOf options, argv)]
      in case execa (binOf options) argv of
           Resolved out \<Rightarrow> (Inr out, log')
         | Rejected e \<Rightarrow>
             (Inl (CalibreError
                     (''Failed to execute calibredb '' @ command @ '': '' @ message e)
                     command
                     (if stderr e \<noteq> [] then stderr e
                      else if stdout e \<noteq> [] then stdout e
                      else ''No error output available'')), log')
         | Thrown v \<Rightarrow> (Inl (NonError v), log'))"

definition execCalibreJson_old ::
  "execa_fn \<Rightarrow> (string \<Rightarrow> 'j option) \<Rightarrow> string \<Rightarrow> string list
     \<Rightarrow> 'a calibre_options_scheme \<Rightarrow> spawns \<Rightarrow> (js_error + 'j) \<times> spawns" where
  "execCalibreJson_old execa parse command args options log =
     (let args' = args @ [''--for-machine'']
      in case execCalibre_old execa command args' options log of
           (Inl e, log') \<Rightarrow> (Inl e, log')
         | (Inr output, log') \<Rightarrow>
             (case parse output of
                Some v \<Rightarrow> (Inr v, log')
              | None \<Rightarrow>
                  (Inl (CalibreError (''Failed to parse JSON output from calibredb '' @ command)
                          command output), log')))"

section \<open>The adapters for adding and removing\<close>

datatype automerge_mode = Ignore | Overwrite | NewRecord

fun automergeString :: "automerge_mode \<Rightarrow> string" where
  "automergeString Ignore = ''ignore''"
| "automergeString Overwrite = ''overwrite''"
| "automergeString NewRecord = ''new_record''"

record add_options = calibre_options +
  allowDuplicates :: "bool option"
  automerge :: "automerge_mode option"
  empty :: "bool option"
  title :: "string option"
  author :: "string option"
  isbn :: "string option"
  identifiers :: "string list option"
  tags :: "string list option"
  series :: "string option"
  seriesIndex :: "numeric option"
  languages :: "string list option"
  recursive :: "bool option"
  oneBookPerDirectory :: "bool option"

record remove_options = calibre_options +
  permanent :: "bool option"

text \<open>
  \<open>valueFlag name v\<close> is what \<open>if (v) args.push(name, v)\<close> adds for an optional
  string, \<open>plainFlag name v\<close> what \<open>if (v) args.push(name)\<close> adds for an optional
  flag. \<open>addArgs\<close> is the array \<open>args\<close> of \<open>add\<close> after its last push.
\<close>

definition valueFlag :: "string \<Rightarrow> string option \<Rightarrow> string list" where
  "valueFlag name v = (case v of None \<Rightarrow> [] | Some s \<Rightarrow> if s \<noteq> [] then [name, s] else [])"

definition plainFlag :: "string \<Rightarrow> bool option \<Rightarrow> string list" where
  "plainFlag name v = (if truthyBool v then [name] else [])"

definition addArgs :: "string list \<Rightarrow> 'a add_options_scheme \<Rightarrow> string list" where
  "addArgs paths options =
     valueFlag ''--automerge'' (map_option automergeString (automerge options)) @
     plainFlag ''--duplicates'' (allowDuplicates options) @
     plainFlag ''--recurse'' (recursive options) @
     plainFlag ''--one-book-per-directory'' (oneBookPerDirectory options) @
     plainFlag ''--empty'' (empty options) @
     valueFlag ''--author'' (author options) @
     valueFlag ''--title'' (title options) @
     (case tags options of
        None \<Rightarrow> []
      | Some ts \<Rightarrow> if length ts > 0 then [''--tags'', join '','' ts] else []) @
     valueFlag ''--series'' (series options) @
     (case seriesIndex options of None \<Rightarrow> [] | Some n \<Rightarrow> [''--series-index'', toString n]) @
     valueFlag ''--isbn'' (isbn options) @
     (case identifiers options of
        None \<Rightarrow> []
      | Some ids \<Rightarrow> concat (map (\<lambda>identifier. [''--identifier'', identifier]) ids)) @
     (case languages options of None \<Rightarrow> [] | Some ls \<Rightarrow> [''--languages'', join '','' ls]) @
     paths"

text \<open>
  The identifiers in the captured text: split at the commas, trim, drop the empty pieces,
  parse, drop what is not a number.
\<close>

definition parseIds :: "string \<Rightarrow> number list" where
  "parseIds g =
     filter (\<lambda>id. id \<noteq> NaN)
       (map parseInt (filter (\<lambda>id. length id > 0) (map trim (split CHR '','' g))))"

text \<open>
  \<open>add\<close> is an async function. In streaming mode it returns what \<open>execCalibreStream\<close>
  returns, the child process of \<open>execa\<close>, which is a promise as well; the promise of
  \<open>add\<close> takes over its outcome: it resolves with the result object of \<open>execa\<close>
  when the child exits with code zero, and it rejects with the error object of
  \<open>execa\<close>, as it is, when the child fails. \<open>execa\<close> stands for the behaviour of the
  tool under the options of the call that is made.
\<close>

datatype add_result = BookIds "number list" | ExecaResult string

definition add ::
  "execa_fn \<Rightarrow> string list \<Rightarrow> 'a add_options_scheme \<Rightarrow> spawns
     \<Rightarrow> (js_error + add_result) \<times> spawns" where
  "add execa paths options log =
     (let args = addArgs paths options
      in if truthyBool (stream options)
         then (case execCalibreStream ''add'' args options log of
                 (ChildProcess file argv, log') \<Rightarrow>
                   (case execa file argv of
                      Resolved out \<Rightarrow> (Inr (ExecaResult out), log')
                    | Rejected e \<Rightarrow>
                        (Inl (ExecaError (stderr e) (stdout e) (message e)), log')
                    | Thrown v \<Rightarrow> (Inl (NonError v), log')))
         else (case execCalibre execa ''add'' args options log of
                 (Inl e, log') \<Rightarrow> (Inl e, log')
               | (Inr output, log') \<Rightarrow>
                   (case regexMatch addedPattern output of
                      Some g \<Rightarrow> if g \<noteq> [] then (Inr (BookIds (parseIds g)), log')
                                else (Inr (BookIds []), log')
                    | None \<Rightarrow> (Inr (BookIds []), log'))))"

text \<open>
  \<open>ids.length > 0 ? ids[0] : null\<close>; on the result object of a streaming call
  \<open>length\<close> is undefined and the comparison is false.
\<close>

fun firstId :: "add_result \<Rightarrow> number option" where
  "firstId (BookIds []) = None"
| "firstId (BookIds (i # ids)) = Some i"
| "firstId (ExecaResult out) = None"

definition addEmptyBook ::
  "execa_fn \<Rightarrow> 'a add_options_scheme \<Rightarrow> spawns \<Rightarrow> (js_error + number option) \<times> spawns" where
  "addEmptyBook execa options log =
     (if (case title options of None \<Rightarrow> True | Some t \<Rightarrow> t = [])
      then (Inl (Error ''Title is required for an empty book''), log)
      else (case add execa [] (options\<lparr>empty := Some True\<rparr>) log of
              (Inl e, log') \<Rightarrow> (Inl e, log')
            | (Inr ids, log') \<Rightarrow> (Inr (firstId ids), log')))"

definition remove ::
  "execa_fn \<Rightarrow> numeric list \<Rightarrow> 'a remove_options_scheme \<Rightarrow> spawns
     \<Rightarrow> (js_error + unit) \<times> spawns" where
  "remove execa bookIds options log =
     (let args = map toString bookIds @ plainFlag ''--permanent'' (permanent options)
      in case execCalibre execa ''remove'' args options log of
           (Inl e, log') \<Rightarrow> (Inl e, log')
         | (Inr output, log') \<Rightarrow> (Inr (), log'))"

definition removeBook ::
  "execa_fn \<Rightarrow> numeric \<Rightarrow> 'a remove_options_scheme \<Rightarrow> spawns
     \<Rightarrow> (js_error + unit) \<times> spawns" where
  "removeBook execa bookId options log = remove execa [bookId] options log"

section \<open>The adapter for listing\<close>

text \<open>
  \<open>ListOptions\<close>. The field \<open>sortBy\<close> is a string or an array of strings; in the
  template literal an array is rendered by joining its entries with commas, and as a
  condition an array is always truthy, a string when it is not empty. \<open>listArgs\<close> is the
  array \<open>args\<close> of \<open>list\<close> after its last push. The field \<open>fields\<close> is written
  \<open>fields'\<close>, the plain name being taken by the record package.
\<close>

datatype sort_by = SortField string | SortFields "string list"

datatype sort_order = ASC | DESC

record list_options = calibre_options +
  fields' :: "string list option"
  sortBy :: "sort_by option"
  sortOrder :: "sort_order option"
  search :: "string option"
  limit :: "numeric option"

fun sortByTruthy :: "sort_by \<Rightarrow> bool" where
  "sortByTruthy (SortField s) = (s \<noteq> [])"
| "sortByTruthy (SortFields xs) = True"

fun sortByString :: "sort_by \<Rightarrow> string" where
  "sortByString (SortField s) = s"
| "sortByString (SortFields xs) = join '','' xs"

definition listArgs :: "'a list_options_scheme \<Rightarrow> string list" where
  "listArgs options =
     (case fields' options of
        None \<Rightarrow> []
      | Some fs \<Rightarrow> if length fs > 0 then [''--fields'', join '','' fs] else []) @
     valueFlag ''--search'' (search options) @
     (case limit options of None \<Rightarrow> [] | Some n \<Rightarrow> [''--limit'', toString n]) @
     (case sortBy options of
        None \<Rightarrow> []
      | Some by \<Rightarrow>
          if sortByTruthy by
          then (let sortDirection = (if sortOrder options = Some DESC then ''-'' else [])
                in [''--sort-by'', sortDirection @ sortByString by])
          else [])"

definition list ::
  "execa_fn \<Rightarrow> (string \<Rightarrow> 'j option) \<Rightarrow> 'a list_options_scheme \<Rightarrow> spawns
     \<Rightarrow> (js_error + 'j) \<times> spawns" where
  "list execa parse options log =
     execCalibreJson execa parse ''list'' (listArgs options)
       (options\<lparr>forMachine := Some True\<rparr>) log"

section \<open>Default options and sample tools\<close>

text \<open>
  The default \<open>{}\<close> of every options parameter, and two external tools for concrete
  runs: one that exits with code zero and prints a given text, one whose run is rejected
  with a given error object.
\<close>

definition noOptions :: calibre_options where
  "noOptions = \<lparr>libraryPath = None, calibreBin = None, forMachine = None, stream = None,
                 debug = None\<rparr>"

definition noAddOptions :: add_options where
  "noAddOptions = calibre_options.extend noOptions
     (add_options.fields None None None None None None None None None None None None None)"




definition execaResolves :: "string \<Rightarrow> execa_fn" where
  "execaResolves out file argv = Resolved out"

definition execaRejects :: "execa_error \<Rightarrow> execa_fn" where
  "execaRejects e file argv = Rejected e"

text \<open>A decoder for concrete runs: it accepts the empty JSON array and nothing else.\<close>

definition parseEmptyArray :: "string \<Rightarrow> unit option" where
  "parseEmptyArray s = (if s = ''[]'' then Some () else None)"

section \<open>Substring search\<close>

text \<open>
  \<open>includesString\<close> finds exactly the contiguous occurrences, and on a lower-cased text
  exactly the occurrences up to letter case.
\<close>

lemma includesString_iff: "includesString s p \<longleftrightarrow> (\<exists>pre post. s = pre @ p @ post)"
proof (induction s)
  case Nil
  then show ?case by simp
next
  case (Cons c cs)
  show ?case
  proof
    assume "includesString (c # cs) p"
    then consider "prefix p (c # cs)" | "includesString cs p" by auto
    then show "\<exists>pre post. c # cs = pre @ p @ post"
    proof cases
      case 1
      then obtain post where "c # cs = p @ post" by (auto simp: prefix_def)
      then have "c # cs = [] @ p @ post" by simp
      then show ?thesis by blast
    next
      case 2
      with Cons.IH obtain pre post where "cs = pre @ p @ post" by blast
      then have "c # cs = (c # pre) @ p @ post" by simp
      then show ?thesis by blast
    qed
  next
    assume "\<exists>pre post. c # cs = pre @ p @ post"
    then obtain pre post where eq: "c # cs = pre @ p @ post" by blast
    show "includesString (c # cs) p"
    proof (cases pre)
      case Nil
      with eq have "prefix p (c # cs)" by (simp add: prefix_def)
      then show ?thesis by simp
    next
      case (Cons d pre')
      with eq have "cs = pre' @ p @ post" by simp
      with Cons.IH have "includesString cs p" by blast
      then show ?thesis by simp
    qed
  qed
qed

lemma includesString_toLowerCase_iff:
  "includesString (toLowerCase s) p \<longleftrightarrow>
     (\<exists>pre mid post. s = pre @ mid @ post \<and> toLowerCase mid = p)"
proof
  assume "includesString (toLowerCase s) p"
  then obtain a b where ab: "map toLowerUnit s = a @ p @ b"
    by (auto simp: includesString_iff toLowerCase_def)
  then have "\<exists>us vs. s = us @ vs \<and> a = map toLowerUnit us \<and> p @ b = map toLowerUnit vs"
    by (simp add: map_eq_append_conv)
  then obtain s1 r where s1: "s = s1 @ r" and r: "map toLowerUnit r = p @ b"
    by auto
  from r have "\<exists>us vs. r = us @ vs \<and> p = map toLowerUnit us \<and> b = map toLowerUnit vs"
    by (simp add: map_eq_append_conv)
  then obtain s2 s3 where "r = s2 @ s3" and "map toLowerUnit s2 = p"
    by auto
  with s1 have "s = s1 @ s2 @ s3 \<and> toLowerCase s2 = p"
    by (simp add: toLowerCase_def)
  then show "\<exists>pre mid post. s = pre @ mid @ post \<and> toLowerCase mid = p"
    by blast
next
  assume "\<exists>pre mid post. s = pre @ mid @ post \<and> toLowerCase mid = p"
  then obtain pre mid post where "s = pre @ mid @ post" and "toLowerCase mid = p"
    by blast
  then have "toLowerCase s = toLowerCase pre @ p @ toLowerCase post"
    by (simp add: toLowerCase_def)
  then show "includesString (toLowerCase s) p"
    unfolding includesString_iff by blast
qed

section \<open>What the patterns match\<close>

text \<open>
  \<open>regexMatch\<close> finds nothing exactly when the anchored pattern fails on every suffix of
  the text. The anchored patterns are characterised by the shape of the text they accept:
  the literal, then what the classes and groups require.
\<close>

lemma regexMatch_None_iff:
  "regexMatch m s = None \<longleftrightarrow> (\<forall>pre t. s = pre @ t \<longrightarrow> m t = None)"
proof (induction s)
  case Nil
  then show ?case by simp
next
  case (Cons c cs)
  have "(\<forall>pre t. c # cs = pre @ t \<longrightarrow> m t = None) \<longleftrightarrow>
        m (c # cs) = None \<and> (\<forall>pre t. cs = pre @ t \<longrightarrow> m t = None)"
    (is "?L \<longleftrightarrow> ?R")
  proof
    assume l: ?L
    have "m (c # cs) = None" using l [rule_format, of "[]" "c # cs"] by simp
    moreover have "m t = None" if "cs = pre @ t" for pre t
      using l [rule_format, of "c # pre" t] that by simp
    ultimately show ?R by blast
  next
    assume r: ?R
    show ?L
    proof (intro allI impI)
      fix pre t
      assume eq: "c # cs = pre @ t"
      show "m t = None"
      proof (cases pre)
        case Nil
        with eq r show ?thesis by simp
      next
        case (Cons d pre')
        with eq have "cs = pre' @ t" by simp
        with r show ?thesis by blast
      qed
    qed
  qed
  with Cons.IH show ?case by (simp split: option.splits)
qed

lemma takeWhile_nonempty_iff:
  "takeWhile P u \<noteq> [] \<longleftrightarrow> (\<exists>d rest. P d \<and> u = d # rest)"
  by (cases u) simp_all

lemma regexMatch_Some_iff:
  "regexMatch m s \<noteq> None \<longleftrightarrow> (\<exists>pre t. s = pre @ t \<and> m t \<noteq> None)"
  by (simp add: regexMatch_None_iff)

lemma literal_then_run:
  assumes "length lit = n"
  shows "prefix lit t \<and> takeWhile P (drop n t) \<noteq> [] \<longleftrightarrow>
     (\<exists>d rest. P d \<and> t = lit @ d # rest)"
proof
  assume a: "prefix lit t \<and> takeWhile P (drop n t) \<noteq> []"
  then obtain u where t: "t = lit @ u" unfolding prefix_def by blast
  with a assms have "takeWhile P u \<noteq> []" by simp
  then obtain d rest where "P d" and "u = d # rest"
    unfolding takeWhile_nonempty_iff by blast
  with t show "\<exists>d rest. P d \<and> t = lit @ d # rest" by blast
next
  assume "\<exists>d rest. P d \<and> t = lit @ d # rest"
  with assms show "prefix lit t \<and> takeWhile P (drop n t) \<noteq> []"
    by auto
qed

lemma idPattern_Some_iff:
  "idPattern t \<noteq> None \<longleftrightarrow> (\<exists>d rest. isDigit d \<and> t = ''id: '' @ d # rest)"
proof -
  have len: "length ''id: '' = 4" by simp
  have "idPattern t \<noteq> None \<longleftrightarrow>
      prefix ''id: '' t \<and> takeWhile isDigit (drop 4 t) \<noteq> []"
    by (simp add: idPattern_def Let_def)
  then show ?thesis
    by (simp only: literal_then_run [OF len])
qed

lemma exists_suffix_shift:
  "(\<exists>pre t. s = pre @ t \<and> (\<exists>d rest. P d \<and> t = lit @ d # rest)) \<longleftrightarrow>
   (\<exists>pre d rest. P d \<and> s = pre @ lit @ d # rest)"
  by blast

lemma idPattern_no_match_iff:
  "regexMatch idPattern s = None \<longleftrightarrow>
     \<not> (\<exists>pre d rest. isDigit d \<and> s = pre @ ''id: '' @ d # rest)"
proof -
  have "regexMatch idPattern s \<noteq> None \<longleftrightarrow>
      (\<exists>pre d rest. isDigit d \<and> s = pre @ ''id: '' @ d # rest)"
    by (simp only: regexMatch_Some_iff idPattern_Some_iff exists_suffix_shift)
  then have "\<not> regexMatch idPattern s \<noteq> None \<longleftrightarrow>
      \<not> (\<exists>pre d rest. isDigit d \<and> s = pre @ ''id: '' @ d # rest)"
    by (simp only:)
  then show ?thesis by (simp only: not_not)
qed

lemma startsWithIgnoreCase_iff:
  assumes "length p = n"
  shows "startsWithIgnoreCase p s \<and> Q (drop n s) \<longleftrightarrow>
     (\<exists>w u. s = w @ u \<and> toLowerCase w = toLowerCase p \<and> Q u)"
proof
  assume a: "startsWithIgnoreCase p s \<and> Q (drop n s)"
  then obtain z where z: "map toLowerUnit s = map toLowerUnit p @ z"
    unfolding startsWithIgnoreCase_def toLowerCase_def prefix_def by blast
  then have "take n (map toLowerUnit s) = map toLowerUnit p"
    using assms by simp
  then have "toLowerCase (take n s) = toLowerCase p"
    by (simp add: toLowerCase_def take_map)
  moreover have "s = take n s @ drop n s" by simp
  ultimately show "\<exists>w u. s = w @ u \<and> toLowerCase w = toLowerCase p \<and> Q u"
    using a by blast
next
  assume "\<exists>w u. s = w @ u \<and> toLowerCase w = toLowerCase p \<and> Q u"
  then obtain w u where s: "s = w @ u" and w: "toLowerCase w = toLowerCase p" and q: "Q u"
    by blast
  from w have "length w = length p"
    unfolding toLowerCase_def by (rule map_eq_imp_length_eq)
  with assms s q have "Q (drop n s)" by simp
  moreover from s w have "startsWithIgnoreCase p s"
    by (simp add: startsWithIgnoreCase_def toLowerCase_def)
  ultimately show "startsWithIgnoreCase p s \<and> Q (drop n s)" by blast
qed

lemma drop_starts_iff:
  "(\<exists>x rest. P x \<and> drop n r = x # rest) \<longleftrightarrow>
   (\<exists>run x rest. length run = n \<and> P x \<and> r = run @ x # rest)"
proof
  assume "\<exists>x rest. P x \<and> drop n r = x # rest"
  then obtain x rest where p: "P x" and d: "drop n r = x # rest" by blast
  from d have "n < length r" by (cases "n < length r") simp_all
  then have "length (take n r) = n" by simp
  moreover have "r = take n r @ x # rest" using d by (metis append_take_drop_id)
  ultimately show "\<exists>run x rest. length run = n \<and> P x \<and> r = run @ x # rest"
    using p by blast
next
  assume "\<exists>run x rest. length run = n \<and> P x \<and> r = run @ x # rest"
  then show "\<exists>x rest. P x \<and> drop n r = x # rest" by auto
qed

lemma pathBacktrack_Some_iff:
  "pathBacktrack k r \<noteq> None \<longleftrightarrow>
     (\<exists>run x rest. run \<noteq> [] \<and> length run \<le> k \<and> \<not> isWhiteSpace x \<and> r = run @ x # rest)"
proof (induction k)
  case 0
  then show ?case by simp
next
  case (Suc k)
  have here: "takeWhile (\<lambda>c. \<not> isWhiteSpace c) (drop (Suc k) r) \<noteq> [] \<longleftrightarrow>
      (\<exists>run x rest. length run = Suc k \<and> \<not> isWhiteSpace x \<and> r = run @ x # rest)"
    unfolding takeWhile_nonempty_iff drop_starts_iff ..
  have "pathBacktrack (Suc k) r \<noteq> None \<longleftrightarrow>
      takeWhile (\<lambda>c. \<not> isWhiteSpace c) (drop (Suc k) r) \<noteq> [] \<or> pathBacktrack k r \<noteq> None"
    by (simp add: Let_def)
  also have "\<dots> \<longleftrightarrow>
      (\<exists>run x rest. length run = Suc k \<and> \<not> isWhiteSpace x \<and> r = run @ x # rest) \<or>
      (\<exists>run x rest. run \<noteq> [] \<and> length run \<le> k \<and> \<not> isWhiteSpace x \<and> r = run @ x # rest)"
    unfolding here Suc.IH ..
  also have "\<dots> \<longleftrightarrow>
      (\<exists>run x rest. run \<noteq> [] \<and> length run \<le> Suc k \<and> \<not> isWhiteSpace x \<and> r = run @ x # rest)"
    (is "?A \<or> ?B \<longleftrightarrow> ?C")
  proof
    assume "?A \<or> ?B"
    then show ?C
    proof
      assume ?A
      then obtain run x rest where "length run = Suc k" and "\<not> isWhiteSpace x"
        and "r = run @ x # rest" by blast
      moreover from this have "run \<noteq> []" by auto
      ultimately show ?C by (metis le_refl)
    next
      assume ?B
      then show ?C by (metis le_Suc_eq)
    qed
  next
    assume ?C
    then obtain run x rest where c: "run \<noteq> []" "length run \<le> Suc k" "\<not> isWhiteSpace x"
      "r = run @ x # rest" by blast
    then consider "length run = Suc k" | "length run \<le> k" by linarith
    then show "?A \<or> ?B"
    proof cases
      case 1
      with c show ?thesis by blast
    next
      case 2
      with c show ?thesis by blast
    qed
  qed
  finally show ?case .
qed

lemma take_takeWhile:
  assumes "k \<le> length (takeWhile C r)"
  shows "take k r = take k (takeWhile C r)"
proof -
  have "take k (xs @ ys) = take k xs" if "k \<le> length xs" for xs ys :: "'a list"
    using that by simp
  from this [OF assms, of "dropWhile C r"] show ?thesis by simp
qed

lemma run_bound_iff:
  "(\<exists>run x rest. run \<noteq> [] \<and> length run \<le> length (takeWhile C r) \<and> P x \<and>
        r = run @ x # rest) \<longleftrightarrow>
   (\<exists>run x rest. run \<noteq> [] \<and> (\<forall>c\<in>set run. C c) \<and> P x \<and> r = run @ x # rest)"
proof
  assume "\<exists>run x rest. run \<noteq> [] \<and> length run \<le> length (takeWhile C r) \<and> P x \<and>
      r = run @ x # rest"
  then obtain run x rest where ne: "run \<noteq> []" and le: "length run \<le> length (takeWhile C r)"
    and p: "P x" and r: "r = run @ x # rest" by blast
  from r have "run = take (length run) r" by simp
  also have "\<dots> = take (length run) (takeWhile C r)" using le by (rule take_takeWhile)
  finally have "set run \<subseteq> set (takeWhile C r)" by (metis set_take_subset)
  then have "\<forall>c\<in>set run. C c" by (auto dest: set_takeWhileD)
  with ne p r show "\<exists>run x rest. run \<noteq> [] \<and> (\<forall>c\<in>set run. C c) \<and> P x \<and> r = run @ x # rest"
    by blast
next
  assume "\<exists>run x rest. run \<noteq> [] \<and> (\<forall>c\<in>set run. C c) \<and> P x \<and> r = run @ x # rest"
  then obtain run x rest where ne: "run \<noteq> []" and all: "\<forall>c\<in>set run. C c"
    and p: "P x" and r: "r = run @ x # rest" by blast
  from all r have "takeWhile C r = run @ takeWhile C (x # rest)"
    by (simp add: takeWhile_append2)
  then have "length run \<le> length (takeWhile C r)" by simp
  with ne p r show "\<exists>run x rest. run \<noteq> [] \<and> length run \<le> length (takeWhile C r) \<and> P x \<and>
      r = run @ x # rest" by blast
qed

lemma no_match_iff:
  assumes "\<And>t. m t \<noteq> None \<longleftrightarrow> M t"
  shows "regexMatch m s = None \<longleftrightarrow> \<not> (\<exists>pre t. s = pre @ t \<and> M t)"
  by (simp add: regexMatch_None_iff assms [symmetric])

lemma pathPattern_Some_iff:
  "pathPattern t \<noteq> None \<longleftrightarrow>
     (\<exists>w u. t = w @ u \<and> toLowerCase w = ''path'' \<and>
        (\<exists>run x rest. run \<noteq> [] \<and> (\<forall>c\<in>set run. c = CHR '':'' \<or> isWhiteSpace c) \<and>
           \<not> isWhiteSpace x \<and> u = run @ x # rest))"
proof -
  have len: "length ''path'' = 4" by simp
  have low: "toLowerCase ''path'' = ''path''" by code_simp
  have "pathPattern t \<noteq> None \<longleftrightarrow>
      startsWithIgnoreCase ''path'' t \<and>
      pathBacktrack (length (takeWhile (\<lambda>c. c = CHR '':'' \<or> isWhiteSpace c) (drop 4 t)))
        (drop 4 t) \<noteq> None"
    by (simp add: pathPattern_def Let_def)
  also have "\<dots> \<longleftrightarrow>
      (\<exists>w u. t = w @ u \<and> toLowerCase w = toLowerCase ''path'' \<and>
         pathBacktrack (length (takeWhile (\<lambda>c. c = CHR '':'' \<or> isWhiteSpace c) u)) u \<noteq> None)"
    by (rule startsWithIgnoreCase_iff
          [OF len, where Q = "\<lambda>u. pathBacktrack
             (length (takeWhile (\<lambda>c. c = CHR '':'' \<or> isWhiteSpace c) u)) u \<noteq> None"])
  finally show ?thesis
    unfolding pathBacktrack_Some_iff run_bound_iff low .
qed

lemma addedTail_Some_iff:
  "addedTail t \<noteq> None \<longleftrightarrow> (\<exists>x rest. \<not> isLineTerminator x \<and> t = '': '' @ x # rest)"
proof -
  have len: "length '': '' = 2" by simp
  have "addedTail t \<noteq> None \<longleftrightarrow>
      prefix '': '' t \<and> takeWhile (\<lambda>c. \<not> isLineTerminator c) (drop 2 t) \<noteq> []"
    by (simp add: addedTail_def Let_def)
  then show ?thesis
    by (simp only: literal_then_run [OF len])
qed

lemma addedPattern_Some_iff:
  "addedPattern t \<noteq> None \<longleftrightarrow>
     (\<exists>w u. t = w @ u \<and> toLowerCase w = ''added book id'' \<and>
        ((\<exists>s v. u = s @ v \<and> toLowerCase s = ''s'' \<and> addedTail v \<noteq> None) \<or>
         addedTail u \<noteq> None))"
proof -
  have len: "length ''Added book id'' = 13" by simp
  have low: "toLowerCase ''Added book id'' = ''added book id''" by code_simp
  have len1: "length ''s'' = 1" by simp
  have low1: "toLowerCase ''s'' = ''s''" by code_simp
  have ifn: "(if a then c else None) \<noteq> None \<longleftrightarrow> a \<and> c \<noteq> None"
    for a and c :: "string option"
    by simp
  have opt: "(case (if b then x else None) of None \<Rightarrow> y | Some g \<Rightarrow> Some g) \<noteq> None \<longleftrightarrow>
      (b \<and> x \<noteq> None) \<or> y \<noteq> None" for b and x y :: "string option"
    by (cases x) auto
  have "addedPattern t \<noteq> None \<longleftrightarrow>
      startsWithIgnoreCase ''Added book id'' t \<and>
      ((startsWithIgnoreCase ''s'' (drop 13 t) \<and> addedTail (drop 1 (drop 13 t)) \<noteq> None) \<or>
       addedTail (drop 13 t) \<noteq> None)"
    unfolding addedPattern_def Let_def ifn opt ..
  also have "\<dots> \<longleftrightarrow>
      (\<exists>w u. t = w @ u \<and> toLowerCase w = toLowerCase ''Added book id'' \<and>
         ((startsWithIgnoreCase ''s'' u \<and> addedTail (drop 1 u) \<noteq> None) \<or>
          addedTail u \<noteq> None))"
    by (rule startsWithIgnoreCase_iff
          [OF len, where Q = "\<lambda>u. (startsWithIgnoreCase ''s'' u \<and> addedTail (drop 1 u) \<noteq> None) \<or>
             addedTail u \<noteq> None"])
  finally show ?thesis
    unfolding startsWithIgnoreCase_iff [OF len1, where Q = "\<lambda>v. addedTail v \<noteq> None"] low low1 .
qed

text \<open>
  No match of the path pattern and of the confirmation pattern, in terms of the text.
\<close>

lemmas pathPattern_no_match_iff = no_match_iff [of pathPattern, OF pathPattern_Some_iff]

lemmas addedPattern_no_match_iff = no_match_iff [of addedPattern, OF addedPattern_Some_iff]

section \<open>Properties of the error classifier\<close>

text \<open>
  Claim C10: the classification depends on the command name and on the error text only.
  For any two error arguments and the same command and error text, \<open>determineErrorType\<close>
  returns the same error: the same case with the same command, error text and detail.
\<close>

theorem determineErrorType_ignores_error:
  "determineErrorType e1 command errText = determineErrorType e2 command errText"
  by (simp add: determineErrorType_def)

theorem determineErrorType_ignores_error_witness:
  "determineErrorType (Error ''exit 1'') ''list'' ''Cannot find library at PATH: /Books/Lib'' =
   determineErrorType (NonError ''42'') ''list'' ''Cannot find library at PATH: /Books/Lib'' \<and>
   determineErrorType (NonError ''42'') ''list'' ''Cannot find library at PATH: /Books/Lib'' =
   LibraryNotFoundError ''/books/lib'' ''list'' ''Cannot find library at PATH: /Books/Lib''"
proof -
  have "determineErrorType (NonError ''42'') ''list'' ''Cannot find library at PATH: /Books/Lib'' =
      LibraryNotFoundError ''/books/lib'' ''list'' ''Cannot find library at PATH: /Books/Lib''"
    by code_simp
  with determineErrorType_ignores_error
      [of "Error ''exit 1''" "''list''" "''Cannot find library at PATH: /Books/Lib''"
        "NonError ''42''"]
  show ?thesis by blast
qed

text \<open>
  Claim C2: an error text that contains, up to letter case, \<open>no book with id\<close> or
  \<open>book not found\<close> is classified as \<open>BookNotFoundError\<close>, whatever else it
  contains; the phrases are tried in a fixed order: the book phrases, then the library
  phrases, then the phrases of a missing executable, then the generic \<open>CalibreError\<close>.
\<close>

theorem determineErrorType_match_order:
  "(errText = pre @ mid @ post \<and>
      (toLowerCase mid = ''no book with id'' \<or> toLowerCase mid = ''book not found'') \<longrightarrow>
      (\<exists>b. determineErrorType error command errText = BookNotFoundError b command errText)) \<and>
   (let m = toLowerCase errText;
        book = (includesString m ''no book with id'' \<or> includesString m ''book not found'');
        lib = (includesString m ''library not found'' \<or> includesString m ''cannot find library'');
        exe = (includesString m ''command not found'' \<or> includesString m ''calibredb: not found'');
        r = determineErrorType error command errText
    in (book \<longrightarrow> (\<exists>b. r = BookNotFoundError b command errText)) \<and>
       (\<not> book \<and> lib \<longrightarrow> (\<exists>p. r = LibraryNotFoundError p command errText)) \<and>
       (\<not> book \<and> \<not> lib \<and> exe \<longrightarrow> r = CalibreNotFoundError ''calibredb executable not found'') \<and>
       (\<not> book \<and> \<not> lib \<and> \<not> exe \<longrightarrow>
          r = CalibreError (''Error executing calibredb '' @ command) command errText))"
proof -
  have "\<exists>b. determineErrorType error command errText = BookNotFoundError b command errText"
    if "errText = pre @ mid @ post"
      and "toLowerCase mid = ''no book with id'' \<or> toLowerCase mid = ''book not found''"
  proof -
    from that have "includesString (toLowerCase errText) ''no book with id'' \<or>
        includesString (toLowerCase errText) ''book not found''"
      unfolding includesString_toLowerCase_iff by blast
    then show ?thesis by (simp add: determineErrorType_def Let_def)
  qed
  then show ?thesis by (simp add: determineErrorType_def Let_def)
qed

theorem determineErrorType_match_order_witness:
  "''Calibredb: not found; Library not found; No Book With ID: 12'' =
     ''Calibredb: not found; Library not found; '' @ ''No Book With ID'' @ '': 12'' \<and>
   toLowerCase ''No Book With ID'' = ''no book with id'' \<and>
   determineErrorType (Error ''exit 1'') ''remove''
       ''Calibredb: not found; Library not found; No Book With ID: 12'' =
     BookNotFoundError (IdNumber (Num 12)) ''remove''
       ''Calibredb: not found; Library not found; No Book With ID: 12''"
proof -
  have h1: "''Calibredb: not found; Library not found; No Book With ID: 12'' =
     ''Calibredb: not found; Library not found; '' @ ''No Book With ID'' @ '': 12''"
    by simp
  have h2: "toLowerCase ''No Book With ID'' = ''no book with id''"
    by code_simp
  have r: "determineErrorType (Error ''exit 1'') ''remove''
       ''Calibredb: not found; Library not found; No Book With ID: 12'' =
     BookNotFoundError (IdNumber (Num 12)) ''remove''
       ''Calibredb: not found; Library not found; No Book With ID: 12''"
    by code_simp
  from h1 h2 determineErrorType_match_order [where errText = "''Calibredb: not found; Library not found; No Book With ID: 12''"
      and pre = "''Calibredb: not found; Library not found; ''" and mid = "''No Book With ID''"
      and post = "'': 12''" and error = "Error ''exit 1''" and command = "''remove''"]
  have "\<exists>b. determineErrorType (Error ''exit 1'') ''remove''
       ''Calibredb: not found; Library not found; No Book With ID: 12'' =
     BookNotFoundError b ''remove''
       ''Calibredb: not found; Library not found; No Book With ID: 12''"
    by blast
  with h1 h2 r show ?thesis by blast
qed

text \<open>
  Claim C7: \<open>determineErrorType\<close> is a total function and returns one classified error on
  every input. When a book phrase decides the class and the pattern for the identifier
  finds nothing, the error carries \<open>unknown\<close> as the book identifier; when a library
  phrase decides the class (no book phrase is present, by the order of claim C2) and the
  pattern for the path finds nothing, the error carries \<open>unknown\<close> as the library path.
  By \<open>idPattern_no_match_iff\<close> and \<open>pathPattern_no_match_iff\<close> a pattern finds
  nothing exactly when the lower-cased text has no part of the shape the pattern describes.
\<close>

theorem determineErrorType_unknown_detail:
  "(let m = toLowerCase errText;
        book = (includesString m ''no book with id'' \<or> includesString m ''book not found'');
        lib = (includesString m ''library not found'' \<or> includesString m ''cannot find library'');
        r = determineErrorType error command errText
    in classified r \<and>
       (book \<and> regexMatch idPattern m = None \<longrightarrow>
          r = BookNotFoundError (IdString ''unknown'') command errText) \<and>
       (\<not> book \<and> lib \<and> regexMatch pathPattern m = None \<longrightarrow>
          r = LibraryNotFoundError ''unknown'' command errText))"
  by (simp add: determineErrorType_def Let_def)

theorem determineErrorType_unknown_detail_witness:
  "includesString (toLowerCase ''Error: Book not found in library'') ''book not found'' \<and>
   regexMatch idPattern (toLowerCase ''Error: Book not found in library'') = None \<and>
   classified (determineErrorType (Error ''exit 1'') ''remove'' ''Error: Book not found in library'') \<and>
   determineErrorType (Error ''exit 1'') ''remove'' ''Error: Book not found in library'' =
     BookNotFoundError (IdString ''unknown'') ''remove'' ''Error: Book not found in library''"
proof -
  have h1: "includesString (toLowerCase ''Error: Book not found in library'') ''book not found''"
    by code_simp
  have h2: "regexMatch idPattern (toLowerCase ''Error: Book not found in library'') = None"
    by code_simp
  from h1 h2
    determineErrorType_unknown_detail
      [of "''Error: Book not found in library''" "Error ''exit 1''" "''remove''"]
  show ?thesis unfolding Let_def by blast
qed

section \<open>Properties of the process invoker and of the JSON decoder\<close>

lemma binOf_forMachine [simp]: "binOf (options\<lparr>forMachine := v\<rparr>) = binOf options"
  by (simp add: binOf_def)

lemma execCalibre_log:
  "snd (execCalibre execa command args options log) =
     log @ [(binOf options, execArgs command args options)]"
  by (simp add: execCalibre_def Let_def split: execa_result.splits)

lemma execArgs_closed:
  "execArgs command args options =
     [command] @
     (case libraryPath options of
        None \<Rightarrow> []
      | Some p \<Rightarrow> if p = [] then [] else [''--library-path'', p]) @
     (if forMachine options = Some True then [''--for-machine''] else []) @ args"
  by (simp add: execArgs_def Let_def truthyBool_def split: option.splits)

lemma execArgs_old_closed:
  "execArgs_old command args options =
     [command] @
     (case libraryPath options of
        None \<Rightarrow> []
      | Some p \<Rightarrow> if p = [] then [] else [''--library-path'', p]) @
     args"
  by (simp add: execArgs_old_def Let_def split: option.splits)

lemma execCalibre_never_plain:
  "fst (execCalibre execa command args options log) \<noteq> Inl (Error m)"
  by (simp add: execCalibre_def Let_def split: execa_result.splits)

text \<open>
  What \<open>execCalibre\<close> raises is never one of the three specific errors that only the
  classifier builds.
\<close>

lemma execCalibre_never_specific:
  "fst (execCalibre execa command args options log) \<noteq> Inl (BookNotFoundError b c e) \<and>
   fst (execCalibre execa command args options log) \<noteq> Inl (LibraryNotFoundError p c e) \<and>
   fst (execCalibre execa command args options log) \<noteq> Inl (CalibreNotFoundError m)"
  by (simp add: execCalibre_def Let_def split: execa_result.splits)

text \<open>
  A call fails with a classified error when it fails and its error is one of the classified
  cases.
\<close>

lemma failsClassified_iff:
  "failsClassified r \<longleftrightarrow> (\<exists>x. r = Inl x \<and> classified x)"
  by (cases r) simp_all




text \<open>
  Claim C3: when the run of the child process is rejected (a non-zero exit), the error that
  \<open>execCalibre\<close> raises carries the captured standard error; the standard output when
  the standard error is empty; and the text \<open>No error output available\<close> when both are
  empty.
\<close>

theorem execCalibre_error_output:
  "execa (binOf options) (execArgs command args options) = Rejected e \<longrightarrow>
     fst (execCalibre execa command args options log) =
       Inl (CalibreError (''Failed to execute calibredb '' @ command @ '': '' @ message e)
              command
              (if stderr e \<noteq> [] then stderr e
               else if stdout e \<noteq> [] then stdout e
               else ''No error output available''))"
  by (simp add: execCalibre_def Let_def)

theorem execCalibre_error_output_witness:
  "execaRejects \<lparr>stderr = [], stdout = ''Traceback: boom'', message = ''exit code 1''\<rparr>
       (binOf noOptions) (execArgs ''list'' [] noOptions) =
     Rejected \<lparr>stderr = [], stdout = ''Traceback: boom'', message = ''exit code 1''\<rparr> \<and>
   fst (execCalibre
          (execaRejects \<lparr>stderr = [], stdout = ''Traceback: boom'', message = ''exit code 1''\<rparr>)
          ''list'' [] noOptions []) =
     Inl (CalibreError ''Failed to execute calibredb list: exit code 1'' ''list''
            ''Traceback: boom'')"
proof -
  have h: "execaRejects \<lparr>stderr = [], stdout = ''Traceback: boom'', message = ''exit code 1''\<rparr>
       (binOf noOptions) (execArgs ''list'' [] noOptions) =
     Rejected \<lparr>stderr = [], stdout = ''Traceback: boom'', message = ''exit code 1''\<rparr>"
    by (simp add: execaRejects_def)
  from h execCalibre_error_output
      [of "execaRejects \<lparr>stderr = [], stdout = ''Traceback: boom'', message = ''exit code 1''\<rparr>"
        noOptions "''list''" "[]"
        "\<lparr>stderr = [], stdout = ''Traceback: boom'', message = ''exit code 1''\<rparr>" "[]"]
  have "fst (execCalibre
          (execaRejects \<lparr>stderr = [], stdout = ''Traceback: boom'', message = ''exit code 1''\<rparr>)
          ''list'' [] noOptions []) =
     Inl (CalibreError ''Failed to execute calibredb list: exit code 1'' ''list''
            ''Traceback: boom'')"
    by simp
  with h show ?thesis by blast
qed

text \<open>
  Claim C4: for every command, argument list and options, also with \<open>forMachine\<close>
  absent or false, \<open>execCalibreJson\<close> launches the tool once with \<open>--for-machine\<close> in
  the argument vector; and when the tool resolves with a text that \<open>JSON.parse\<close>
  rejects, the call fails with a \<open>CalibreError\<close> that carries the command and the
  undecoded text, so it does not resolve with any value.
\<close>

theorem execCalibreJson_forces_flag:
  "snd (execCalibreJson execa parse command args options log) =
     log @ [(binOf options,
             [command] @
             (case libraryPath options of
                None \<Rightarrow> []
              | Some p \<Rightarrow> if p = [] then [] else [''--library-path'', p]) @
             [''--for-machine''] @ args)] \<and>
   (execa (binOf options) (execArgs command args (options\<lparr>forMachine := Some True\<rparr>)) =
      Resolved out \<and>
    parse out = None \<longrightarrow>
      fst (execCalibreJson execa parse command args options log) =
        Inl (CalibreError (''Failed to parse JSON output from calibredb '' @ command)
               command out))"
proof -
  have "snd (execCalibreJson execa parse command args options log) =
      snd (execCalibre execa command args (options\<lparr>forMachine := Some True\<rparr>) log)"
    by (simp add: execCalibreJson_def Let_def split: prod.splits sum.splits option.splits)
  then have 1: "snd (execCalibreJson execa parse command args options log) =
     log @ [(binOf options,
             [command] @
             (case libraryPath options of
                None \<Rightarrow> []
              | Some p \<Rightarrow> if p = [] then [] else [''--library-path'', p]) @
             [''--for-machine''] @ args)]"
    by (simp add: execCalibre_log execArgs_closed)
  have 2: "fst (execCalibreJson execa parse command args options log) =
        Inl (CalibreError (''Failed to parse JSON output from calibredb '' @ command)
               command out)"
    if "execa (binOf options) (execArgs command args (options\<lparr>forMachine := Some True\<rparr>)) =
          Resolved out"
      and "parse out = None"
    using that by (simp add: execCalibreJson_def execCalibre_def Let_def)
  from 1 2 show ?thesis by blast
qed

theorem execCalibreJson_forces_flag_witness:
  "execaResolves ''calibredb 7.0'' (binOf (noOptions\<lparr>forMachine := Some False\<rparr>))
       (execArgs ''list'' [''--limit'', ''1'']
          (noOptions\<lparr>forMachine := Some False, forMachine := Some True\<rparr>)) =
     Resolved ''calibredb 7.0'' \<and>
   parseEmptyArray ''calibredb 7.0'' = None \<and>
   fst (execCalibreJson (execaResolves ''calibredb 7.0'') parseEmptyArray ''list''
          [''--limit'', ''1''] (noOptions\<lparr>forMachine := Some False\<rparr>) []) =
     Inl (CalibreError ''Failed to parse JSON output from calibredb list'' ''list''
            ''calibredb 7.0'') \<and>
   snd (execCalibreJson (execaResolves ''calibredb 7.0'') parseEmptyArray ''list''
          [''--limit'', ''1''] (noOptions\<lparr>forMachine := Some False\<rparr>) []) =
     [(''calibredb'', [''list'', ''--for-machine'', ''--limit'', ''1''])]"
proof -
  have h1: "execaResolves ''calibredb 7.0'' (binOf (noOptions\<lparr>forMachine := Some False\<rparr>))
       (execArgs ''list'' [''--limit'', ''1'']
          (noOptions\<lparr>forMachine := Some False, forMachine := Some True\<rparr>)) =
     Resolved ''calibredb 7.0''"
    by (simp add: execaResolves_def)
  have h2: "parseEmptyArray ''calibredb 7.0'' = None"
    by (simp add: parseEmptyArray_def)
  note inst = execCalibreJson_forces_flag
      [of "execaResolves ''calibredb 7.0''" parseEmptyArray "''list''" "[''--limit'', ''1'']"
        "noOptions\<lparr>forMachine := Some False\<rparr>" "[]" "''calibredb 7.0''"]
  from inst h1 h2 have 1: "fst (execCalibreJson (execaResolves ''calibredb 7.0'') parseEmptyArray
          ''list'' [''--limit'', ''1''] (noOptions\<lparr>forMachine := Some False\<rparr>) []) =
     Inl (CalibreError ''Failed to parse JSON output from calibredb list'' ''list''
            ''calibredb 7.0'')"
    by simp
  from inst have 2: "snd (execCalibreJson (execaResolves ''calibredb 7.0'') parseEmptyArray
          ''list'' [''--limit'', ''1''] (noOptions\<lparr>forMachine := Some False\<rparr>) []) =
     [(''calibredb'', [''list'', ''--for-machine'', ''--limit'', ''1''])]"
    by (simp add: binOf_def noOptions_def)
  from h1 h2 1 2 show ?thesis by blast
qed

text \<open>
  Claim C6, as amended: \<open>execCalibre\<close> launches the tool once, and the argument vector is
  the command name; then the pair \<open>--library-path\<close>, value exactly when
  \<open>libraryPath\<close> is present and not the empty string; then \<open>--for-machine\<close> exactly
  when \<open>forMachine\<close> is true; then the caller's arguments in their order.
\<close>

theorem execCalibre_argv:
  "snd (execCalibre execa command args options log) =
     log @ [(case calibreBin options of None \<Rightarrow> ''calibredb'' | Some b \<Rightarrow> b,
             [command] @
             (case libraryPath options of
                None \<Rightarrow> []
              | Some p \<Rightarrow> if p = [] then [] else [''--library-path'', p]) @
             (if forMachine options = Some True then [''--for-machine''] else []) @
             args)]"
  by (simp add: execCalibre_log execArgs_closed binOf_def)

theorem execCalibre_argv_witness:
  "snd (execCalibre (execaResolves ''[]'') ''list'' [''--fields'', ''title'']
          (noOptions\<lparr>libraryPath := Some ''/books'', forMachine := Some True\<rparr>) []) =
     [(''calibredb'',
       [''list'', ''--library-path'', ''/books'', ''--for-machine'', ''--fields'', ''title''])]"
  using execCalibre_argv [of "execaResolves ''[]''" "''list''" "[''--fields'', ''title'']"
      "noOptions\<lparr>libraryPath := Some ''/books'', forMachine := Some True\<rparr>" "[]"]
  by (simp add: noOptions_def)

text \<open>
  The claim as stated fails where \<open>libraryPath\<close> is present and empty: the pair is not
  injected.
\<close>

theorem execCalibre_argv_counterexample:
  "libraryPath (noOptions\<lparr>libraryPath := Some []\<rparr>) = Some [] \<and>
   snd (execCalibre (execaResolves ''[]'') ''list'' [''--fields'', ''title'']
          (noOptions\<lparr>libraryPath := Some []\<rparr>) []) =
     [(''calibredb'', [''list'', ''--fields'', ''title''])]"
  by (simp add: execCalibre_def execArgs_def binOf_def truthyBool_def noOptions_def
        execaResolves_def)

text \<open>
  Claim C9, as amended: the two versions of the invoker build the same argument vector in
  \<open>execCalibre\<close> whenever \<open>forMachine\<close> is not true. In \<open>execCalibreJson\<close> both
  launch the same file with the same leading part (the command and the library path); the
  current version puts \<open>--for-machine\<close> before the caller's arguments, the earlier one
  after them, so the two calls agree when the flag commutes with the caller's arguments,
  as it does for the empty argument list.
\<close>

theorem exec_versions_argv:
  "(forMachine options \<noteq> Some True \<longrightarrow>
      execCalibre execa command args options log =
      execCalibre_old execa command args options log) \<and>
   (\<exists>pre. snd (execCalibreJson execa parse command args options log) =
            log @ [(binOf options, pre @ [''--for-machine''] @ args)] \<and>
          snd (execCalibreJson_old execa parse command args options log) =
            log @ [(binOf options, pre @ args @ [''--for-machine''])]) \<and>
   (''--for-machine'' # args = args @ [''--for-machine''] \<longrightarrow>
      execCalibreJson execa parse command args options log =
      execCalibreJson_old execa parse command args options log)"
proof -
  let ?lib = "case libraryPath options of
                None \<Rightarrow> []
              | Some p \<Rightarrow> if p = [] then [] else [''--library-path'', p]"
  have 1: "execCalibre execa command args options log =
      execCalibre_old execa command args options log"
    if "forMachine options \<noteq> Some True"
    using that
    by (simp add: execCalibre_def execCalibre_old_def execArgs_closed execArgs_old_closed)
  have new: "snd (execCalibreJson execa parse command args options log) =
      log @ [(binOf options, ([command] @ ?lib) @ [''--for-machine''] @ args)]"
    by (simp add: execCalibreJson_def execCalibre_def execArgs_closed Let_def
          split: execa_result.splits option.splits)
  have old: "snd (execCalibreJson_old execa parse command args options log) =
      log @ [(binOf options, ([command] @ ?lib) @ args @ [''--for-machine''])]"
    by (simp add: execCalibreJson_old_def execCalibre_old_def execArgs_old_closed Let_def
          split: execa_result.splits option.splits)
  have 3: "execCalibreJson execa parse command args options log =
      execCalibreJson_old execa parse command args options log"
    if "''--for-machine'' # args = args @ [''--for-machine'']"
  proof -
    from that have "execArgs command args (options\<lparr>forMachine := Some True\<rparr>) =
        execArgs_old command (args @ [''--for-machine'']) options"
      by (simp add: execArgs_closed execArgs_old_closed)
    then have "execCalibre execa command args (options\<lparr>forMachine := Some True\<rparr>) log =
        execCalibre_old execa command (args @ [''--for-machine'']) options log"
      by (simp add: execCalibre_def execCalibre_old_def)
    then show ?thesis
      by (simp add: execCalibreJson_def execCalibreJson_old_def)
  qed
  from new old have "\<exists>pre. snd (execCalibreJson execa parse command args options log) =
            log @ [(binOf options, pre @ [''--for-machine''] @ args)] \<and>
          snd (execCalibreJson_old execa parse command args options log) =
            log @ [(binOf options, pre @ args @ [''--for-machine''])]"
    by blast
  with 1 3 show ?thesis by blast
qed

theorem exec_versions_argv_witness:
  "forMachine noOptions \<noteq> Some True \<and>
   ''--for-machine'' # [] = [] @ [''--for-machine''] \<and>
   execCalibre (execaResolves ''[]'') ''list'' [] noOptions [] =
     execCalibre_old (execaResolves ''[]'') ''list'' [] noOptions [] \<and>
   execCalibreJson (execaResolves ''[]'') parseEmptyArray ''list'' [] noOptions [] =
     execCalibreJson_old (execaResolves ''[]'') parseEmptyArray ''list'' [] noOptions []"
proof -
  have h1: "forMachine noOptions \<noteq> Some True"
    by (simp add: noOptions_def)
  have h2: "''--for-machine'' # [] = [] @ [''--for-machine'']"
    by simp
  from h1 h2 exec_versions_argv
      [of noOptions "execaResolves ''[]''" "''list''" "[]" "[]" parseEmptyArray]
  show ?thesis by blast
qed

text \<open>
  The claim as stated fails on a listing with two arguments: the flag is the second entry
  of the current version's argument vector and the last entry of the earlier version's.
\<close>

theorem exec_versions_argv_counterexample:
  "snd (execCalibreJson (execaResolves ''[]'') parseEmptyArray ''list''
          [''--fields'', ''title''] noOptions []) =
     [(''calibredb'', [''list'', ''--for-machine'', ''--fields'', ''title''])] \<and>
   snd (execCalibreJson_old (execaResolves ''[]'') parseEmptyArray ''list''
          [''--fields'', ''title''] noOptions []) =
     [(''calibredb'', [''list'', ''--fields'', ''title'', ''--for-machine''])] \<and>
   snd (execCalibreJson (execaResolves ''[]'') parseEmptyArray ''list''
          [''--fields'', ''title''] noOptions []) \<noteq>
   snd (execCalibreJson_old (execaResolves ''[]'') parseEmptyArray ''list''
          [''--fields'', ''title''] noOptions [])"
  by (simp add: execCalibreJson_def execCalibreJson_old_def execCalibre_def execCalibre_old_def
        execArgs_def execArgs_old_def binOf_def truthyBool_def noOptions_def execaResolves_def
        parseEmptyArray_def)

section \<open>Properties of the adapter for adding\<close>

text \<open>
  Claim C5: in a call of \<open>add\<close> that is not streaming, when the tool exits with code
  zero and no part of its output matches the confirmation pattern, \<open>add\<close> resolves
  with the empty list of identifiers. The pattern is applied on this path only: when the
  run is rejected, \<open>add\<close> fails with the error of \<open>execCalibre\<close>, whatever the
  captured output holds. By \<open>addedPattern_no_match_iff\<close> the pattern finds nothing
  exactly when the output has no part of the shape the pattern describes.
\<close>

theorem add_no_confirmation:
  "stream options \<noteq> Some True \<longrightarrow>
   (execa (binOf options) (execArgs ''add'' (addArgs paths options) options) = Resolved out \<and>
    regexMatch addedPattern out = None \<longrightarrow>
      fst (add execa paths options log) = Inr (BookIds [])) \<and>
   (execa (binOf options) (execArgs ''add'' (addArgs paths options) options) = Rejected e \<longrightarrow>
      fst (add execa paths options log) =
        Inl (CalibreError (''Failed to execute calibredb add: '' @ message e) ''add''
               (if stderr e \<noteq> [] then stderr e
                else if stdout e \<noteq> [] then stdout e
                else ''No error output available'')))"
  by (simp add: add_def execCalibre_def Let_def truthyBool_def)

theorem add_no_confirmation_witness:
  "stream noAddOptions \<noteq> Some True \<and>
   execaResolves ''Skipped: already in the library''
       (binOf noAddOptions) (execArgs ''add'' (addArgs [''book.epub''] noAddOptions) noAddOptions) =
     Resolved ''Skipped: already in the library'' \<and>
   regexMatch addedPattern ''Skipped: already in the library'' = None \<and>
   fst (add (execaResolves ''Skipped: already in the library'') [''book.epub''] noAddOptions []) =
     Inr (BookIds [])"
proof -
  have h0: "stream noAddOptions \<noteq> Some True"
    by (simp add: noAddOptions_def noOptions_def calibre_options.extend_def)
  have h1: "execaResolves ''Skipped: already in the library''
       (binOf noAddOptions) (execArgs ''add'' (addArgs [''book.epub''] noAddOptions) noAddOptions) =
     Resolved ''Skipped: already in the library''"
    by (simp add: execaResolves_def)
  have h2: "regexMatch addedPattern ''Skipped: already in the library'' = None"
    by code_simp
  from h0 h1 h2 add_no_confirmation
      [of noAddOptions "execaResolves ''Skipped: already in the library''"
        "[''book.epub'']" "''Skipped: already in the library''" "[]"]
  show ?thesis by blast
qed

text \<open>
  Claim C8: when the title is absent, \<open>addEmptyBook\<close> fails with the plain error
  \<open>Title is required for an empty book\<close> and launches no process: the list of launched
  processes is unchanged. The failure differs from every failure of the process invoker,
  which never raises this error.
\<close>

theorem addEmptyBook_requires_title:
  "title options = None \<longrightarrow>
     addEmptyBook execa options log =
       (Inl (Error ''Title is required for an empty book''), log) \<and>
     fst (execCalibre execa' command args options' log') \<noteq>
       Inl (Error ''Title is required for an empty book'')"
  by (simp add: addEmptyBook_def execCalibre_never_plain)

theorem addEmptyBook_requires_title_witness:
  "title noAddOptions = None \<and>
   addEmptyBook (execaResolves ''Added book ids: 1'') noAddOptions [] =
     (Inl (Error ''Title is required for an empty book''), []) \<and>
   fst (execCalibre (execaResolves ''Added book ids: 1'') ''add'' [''--empty''] noAddOptions []) \<noteq>
     Inl (Error ''Title is required for an empty book'')"
proof -
  have h: "title noAddOptions = None"
    by (simp add: noAddOptions_def noOptions_def calibre_options.extend_def
          add_options.fields_def)
  from h addEmptyBook_requires_title
      [where options = noAddOptions and execa = "execaResolves ''Added book ids: 1''"
        and log = "[]" and execa' = "execaResolves ''Added book ids: 1''"
        and command = "''add''" and args = "[''--empty'']" and options' = noAddOptions
        and log' = "[]"]
  show ?thesis by blast
qed

end
